theory Spec2Isabelle
  imports Main "HOL-Library.Word" "HOL-Library.Signed_Division"
begin

unbundle bit_operations_syntax

section \<open>OpenPSX2AmigaPadAdapter: firmware/PS2\_2\_CD32.ino\<close>

text \<open>
  The sketch runs on an 8-bit AVR: \<open>byte\<close> is 8 bits, \<open>int\<close> and \<open>unsigned int\<close> are
  16 bits, \<open>long\<close> and \<open>unsigned long\<close> are 32 bits. Bytes and the millisecond counter
  are words; the stick arithmetic (\<open>int\<close>, values between -127 and 128) is done on
  \<open>int\<close>, where it cannot overflow.
\<close>

type_synonym byte = "8 word"
type_synonym uint = "16 word"
type_synonym ulong = "32 word"

subsection \<open>Settings\<close>

text \<open>Output pins, connected to the Amiga port (Arduino pin numbers).\<close>

definition PIN_UP :: nat where [simp]: "PIN_UP = 4"
definition PIN_DOWN :: nat where [simp]: "PIN_DOWN = 5"
definition PIN_LEFT :: nat where [simp]: "PIN_LEFT = 6"
definition PIN_RIGHT :: nat where [simp]: "PIN_RIGHT = 7"
definition PIN_BTN1 :: nat where [simp]: "PIN_BTN1 = 3"
definition PIN_BTN2 :: nat where [simp]: "PIN_BTN2 = 8"
definition PIN_PADMODE :: nat where [simp]: "PIN_PADMODE = 2"
definition PIN_BTNREGOUT :: nat where [simp]: "PIN_BTNREGOUT = PIN_BTN2"
definition PIN_BTNREGCLK :: nat where [simp]: "PIN_BTNREGCLK = PIN_BTN1"

text \<open>The two led pins are \<open>A1\<close> and \<open>A0\<close>, which are pins 15 and 14 of an Arduino Uno.\<close>

definition PIN_LED_PAD_OK :: nat where [simp]: "PIN_LED_PAD_OK = 15"
definition PIN_LED_MODE_CD32 :: nat where [simp]: "PIN_LED_MODE_CD32 = 14"

text \<open>The \<open>const byte\<close> settings, at the type they are promoted to where they are used.\<close>

definition ANALOG_IDLE_VALUE :: int where [simp]: "ANALOG_IDLE_VALUE = 127"
definition ANALOG_DEAD_ZONE :: int where [simp]: "ANALOG_DEAD_ZONE = 65"
definition MOUSE_SLOW_DELTA :: int where [simp]: "MOUSE_SLOW_DELTA = 60"
definition MOUSE_FAST_DELTA :: int where [simp]: "MOUSE_FAST_DELTA = 6"
definition TIMEOUT_CD32_MODE :: ulong where [simp]: "TIMEOUT_CD32_MODE = 200"

text \<open>Button bits for CD32 mode (\<open>1U << n\<close>), as they act on the 8-bit register.\<close>

definition BTN_BLUE :: byte where "BTN_BLUE = push_bit 0 1"
definition BTN_RED :: byte where "BTN_RED = push_bit 1 1"
definition BTN_YELLOW :: byte where "BTN_YELLOW = push_bit 2 1"
definition BTN_GREEN :: byte where "BTN_GREEN = push_bit 3 1"
definition BTN_FRONT_R :: byte where "BTN_FRONT_R = push_bit 4 1"
definition BTN_FRONT_L :: byte where "BTN_FRONT_L = push_bit 5 1"
definition BTN_START :: byte where "BTN_START = push_bit 6 1"

definition JMAP_NORMAL :: nat where [simp]: "JMAP_NORMAL = 1"
definition JMAP_RACING1 :: nat where [simp]: "JMAP_RACING1 = 2"
definition JMAP_RACING2 :: nat where [simp]: "JMAP_RACING2 = 3"
definition JMAP_PLATFORM :: nat where [simp]: "JMAP_PLATFORM = 4"

subsection \<open>Data\<close>

datatype PadMode = MODE_JOYSTICK | MODE_MOUSE | MODE_CD32

text \<open>
  The controller snapshot that \<open>ps2x.read_gamepad ()\<close> leaves behind: what
  \<open>ps2x.Button\<close> and \<open>ps2x.Analog\<close> answer until the next read.
\<close>

datatype psb =
  PSB_SELECT | PSB_L3 | PSB_R3 | PSB_START
  | PSB_PAD_UP | PSB_PAD_RIGHT | PSB_PAD_DOWN | PSB_PAD_LEFT
  | PSB_L2 | PSB_R2 | PSB_L1 | PSB_R1
  | PSB_TRIANGLE | PSB_CIRCLE | PSB_CROSS | PSB_SQUARE

datatype pss = PSS_RX | PSS_RY | PSS_LX | PSS_LY

record ps2x =
  Button :: "psb \<Rightarrow> bool"
  Analog :: "pss \<Rightarrow> byte"

text \<open>A standard 2-button joystick. True means pressed.\<close>

record TwoButtonJoystick =
  up :: bool
  down :: bool
  left :: bool
  right :: bool
  b1 :: bool
  b2 :: bool

text \<open>The function pointer \<open>joyMappingFunc\<close> ranges over the four mapping functions.\<close>

datatype JoyMappingFunc = MapNormal | MapRacing1 | MapRacing2 | MapPlatform

subsection \<open>Pins\<close>

text \<open>
  A pin of the microcontroller is its data-direction bit (set for an output) and its
  output latch: the level of an output, the pull-up of an input. The Arduino core, which
  the sketch drives the pins with, is not part of the repository.
\<close>

record pin =
  ddr :: bool
  port :: bool

datatype PinMode = INPUT | OUTPUT | INPUT_PULLUP

abbreviation LOW :: bool where "LOW \<equiv> False"
abbreviation HIGH :: bool where "HIGH \<equiv> True"

type_synonym pins = "nat \<Rightarrow> pin"

text \<open>
  Modelled from the spec: \<open>pinMode\<close> of the Arduino core. "Pressed" is the pin as a low
  output and "released" the pin as a floating input without pull-up, so
  \<open>pinMode (pin, OUTPUT)\<close> sets the direction bit and leaves the latch alone ("Low is
  implicit"), \<open>pinMode (pin, INPUT)\<close> clears the direction bit and the latch ("Hi-Z"), and
  \<open>INPUT_PULLUP\<close> clears the direction bit and sets the latch.
\<close>

definition pinMode :: "nat \<Rightarrow> PinMode \<Rightarrow> pins \<Rightarrow> pins" where
  "pinMode p m io =
     (case m of
        INPUT \<Rightarrow> io(p := \<lparr>ddr = False, port = LOW\<rparr>)
      | INPUT_PULLUP \<Rightarrow> io(p := \<lparr>ddr = False, port = HIGH\<rparr>)
      | OUTPUT \<Rightarrow> io(p := (io p)\<lparr>ddr := True\<rparr>))"

text \<open>Modelled from the spec: \<open>digitalWrite\<close> of the Arduino core sets the latch.\<close>

definition digitalWrite :: "nat \<Rightarrow> bool \<Rightarrow> pins \<Rightarrow> pins" where
  "digitalWrite p v io = io(p := (io p)\<lparr>port := v\<rparr>)"

text \<open>
  Modelled from the spec: \<open>digitalRead\<close> of the Arduino core, for the pins the sketch
  reads back in mouse mode, which are outputs there (\<open>reachable_wired\<close> below): it
  returns the latch. The level of \<open>PIN_PADMODE\<close>, an input driven by the host, is an
  argument of the interrupt handler instead.
\<close>

definition digitalRead :: "nat \<Rightarrow> pins \<Rightarrow> bool" where
  "digitalRead p io = port (io p)"

text \<open>
  Modelled from the spec: \<open>map\<close> of the Arduino core, the linear interpolation in integer
  arithmetic \<open>(x - in_min) * (out_max - out_min) / (in_max - in_min) + out_min\<close> on
  \<open>long\<close>, with C's division, which truncates towards zero (\<open>sdiv\<close>). The sketch calls it
  with values of at most three digits, far from the 32-bit range.
\<close>

definition map_long :: "int \<Rightarrow> int \<Rightarrow> int \<Rightarrow> int \<Rightarrow> int \<Rightarrow> int" where
  "map_long x in_min in_max out_min out_max =
     (x - in_min) * (out_max - out_min) sdiv (in_max - in_min) + out_min"

subsection \<open>Program state\<close>

text \<open>
  The globals of the sketch, the two \<open>static\<close> timers of \<open>handleMouse\<close>, the pins, and
  whether \<open>onClockEdge\<close> is attached to the clock pin's interrupt.
\<close>

record state =
  mode :: PadMode
  joyMappingFunc :: JoyMappingFunc
  wasMouse :: bool
  buttons :: byte
  buttonsLive :: byte
  lastSwitchedTime :: ulong
  tx :: ulong
  ty :: ulong
  io :: pins
  clockAttached :: bool

text \<open>
  The state when \<open>setup ()\<close> has returned with a controller found: every pin an input
  with its latch low, as after reset, except for the pull-up on \<open>PIN_PADMODE\<close> and the two
  led outputs.
\<close>

definition power_on :: pins where
  "power_on = (\<lambda>p. \<lparr>ddr = False, port = LOW\<rparr>)"

definition init :: state where
  "init =
     \<lparr>mode = MODE_JOYSTICK, joyMappingFunc = MapNormal, wasMouse = False,
      buttons = 0, buttonsLive = 0x80, lastSwitchedTime = 0, tx = 0, ty = 0,
      io = digitalWrite PIN_LED_PAD_OK HIGH
             (pinMode PIN_LED_MODE_CD32 OUTPUT
               (pinMode PIN_LED_PAD_OK OUTPUT
                 (pinMode PIN_PADMODE INPUT_PULLUP power_on))),
      clockAttached = False\<rparr>"

subsection \<open>Mode switches\<close>

definition toMouse :: "state \<Rightarrow> state" where
  "toMouse s =
     s\<lparr>io := pinMode PIN_RIGHT OUTPUT
               (pinMode PIN_LEFT OUTPUT
                 (pinMode PIN_DOWN OUTPUT
                   (pinMode PIN_UP OUTPUT (io s)))),
       clockAttached := False,
       mode := MODE_MOUSE\<rparr>"

definition toJoystick :: "state \<Rightarrow> state" where
  "toJoystick s =
     s\<lparr>io := pinMode PIN_RIGHT INPUT (digitalWrite PIN_RIGHT LOW
               (pinMode PIN_LEFT INPUT (digitalWrite PIN_LEFT LOW
                 (pinMode PIN_DOWN INPUT (digitalWrite PIN_DOWN LOW
                   (pinMode PIN_UP INPUT (digitalWrite PIN_UP LOW (io s)))))))),
       clockAttached := False,
       mode := MODE_JOYSTICK\<rparr>"

definition toCD32 :: "state \<Rightarrow> state" where
  "toCD32 s =
     s\<lparr>io := pinMode PIN_BTNREGCLK INPUT (pinMode PIN_BTNREGOUT OUTPUT (io s)),
       clockAttached := True,
       wasMouse := (if mode s = MODE_MOUSE then True else False),
       mode := MODE_CD32\<rparr>"

subsection \<open>Interrupt service routines\<close>

text \<open>
  \<open>onPadModeChange\<close> runs on every change of \<open>PIN_PADMODE\<close>. \<open>level\<close> is what
  \<open>digitalRead (PIN_PADMODE)\<close> returns in it and \<open>now\<close> what \<open>millis ()\<close> returns.
  \<open>digitalWrite (PIN_BTNREGOUT, buttons & 0x01)\<close> writes high for a nonzero value.
\<close>

definition onPadModeChange :: "bool \<Rightarrow> ulong \<Rightarrow> state \<Rightarrow> state" where
  "onPadModeChange level now s =
     (if level = LOW then
        let s1 = (if mode s \<noteq> MODE_CD32 then toCD32 s else s);
            s2 = s1\<lparr>buttons := buttonsLive s1\<rparr>;
            s3 = s2\<lparr>io := digitalWrite PIN_BTNREGOUT (buttons s2 AND 0x01 \<noteq> 0) (io s2)\<rparr>
        in s3\<lparr>buttons := drop_bit 1 (buttons s3)\<rparr>
      else s\<lparr>lastSwitchedTime := now\<rparr>)"

definition onClockEdge :: "state \<Rightarrow> state" where
  "onClockEdge s =
     (let s1 = s\<lparr>io := digitalWrite PIN_BTNREGOUT (buttons s AND 0x01 \<noteq> 0) (io s)\<rparr>
      in s1\<lparr>buttons := drop_bit 1 (buttons s1)\<rparr>)"

subsection \<open>Open-collector buttons\<close>

definition buttonPress :: "nat \<Rightarrow> pins \<Rightarrow> pins" where
  "buttonPress p = pinMode p OUTPUT"

definition buttonRelease :: "nat \<Rightarrow> pins \<Rightarrow> pins" where
  "buttonRelease p = pinMode p INPUT"

subsection \<open>Button mappings\<close>

definition mapAnalogStickHorizontal :: "ps2x \<Rightarrow> TwoButtonJoystick \<Rightarrow> TwoButtonJoystick" where
  "mapAnalogStickHorizontal ps j =
     (let lx = uint (Analog ps PSS_LX);
          deltaLX = lx - ANALOG_IDLE_VALUE
      in j\<lparr>left := deltaLX < - ANALOG_DEAD_ZONE, right := deltaLX > ANALOG_DEAD_ZONE\<rparr>)"

definition mapAnalogStickVertical :: "ps2x \<Rightarrow> TwoButtonJoystick \<Rightarrow> TwoButtonJoystick" where
  "mapAnalogStickVertical ps j =
     (let ly = uint (Analog ps PSS_LY);
          deltaLY = ly - ANALOG_IDLE_VALUE
      in j\<lparr>up := deltaLY < - ANALOG_DEAD_ZONE, down := deltaLY > ANALOG_DEAD_ZONE\<rparr>)"

definition mapJoystickNormal :: "ps2x \<Rightarrow> TwoButtonJoystick \<Rightarrow> TwoButtonJoystick" where
  "mapJoystickNormal ps j0 =
     (let j = mapAnalogStickHorizontal ps j0;
          j = mapAnalogStickVertical ps j;
          j = j\<lparr>up := up j \<or> Button ps PSB_PAD_UP\<rparr>;
          j = j\<lparr>down := down j \<or> Button ps PSB_PAD_DOWN\<rparr>;
          j = j\<lparr>left := left j \<or> Button ps PSB_PAD_LEFT\<rparr>;
          j = j\<lparr>right := right j \<or> Button ps PSB_PAD_RIGHT\<rparr>;
          j = j\<lparr>b1 := Button ps PSB_SQUARE \<or> Button ps PSB_R1 \<or> Button ps PSB_R2
                      \<or> Button ps PSB_R3\<rparr>
      in j\<lparr>b2 := Button ps PSB_CROSS \<or> Button ps PSB_L1 \<or> Button ps PSB_L2
                  \<or> Button ps PSB_L3\<rparr>)"

definition mapJoystickRacing1 :: "ps2x \<Rightarrow> TwoButtonJoystick \<Rightarrow> TwoButtonJoystick" where
  "mapJoystickRacing1 ps j0 =
     (let j = mapAnalogStickHorizontal ps j0;
          j = j\<lparr>left := left j \<or> Button ps PSB_PAD_LEFT\<rparr>;
          j = j\<lparr>right := right j \<or> Button ps PSB_PAD_RIGHT\<rparr>;
          j = j\<lparr>up := Button ps PSB_PAD_UP \<or> Button ps PSB_SQUARE\<rparr>;
          j = j\<lparr>down := Button ps PSB_PAD_DOWN \<or> Button ps PSB_CROSS\<rparr>;
          j = (if down j then j\<lparr>up := False\<rparr> else j);
          j = j\<lparr>b1 := Button ps PSB_TRIANGLE \<or> Button ps PSB_R1 \<or> Button ps PSB_R2
                      \<or> Button ps PSB_R3\<rparr>
      in j\<lparr>b2 := Button ps PSB_CIRCLE \<or> Button ps PSB_L1 \<or> Button ps PSB_L2
                  \<or> Button ps PSB_L3\<rparr>)"

definition mapJoystickRacing2 :: "ps2x \<Rightarrow> TwoButtonJoystick \<Rightarrow> TwoButtonJoystick" where
  "mapJoystickRacing2 ps j0 =
     (let j = mapAnalogStickHorizontal ps j0;
          j = j\<lparr>left := left j \<or> Button ps PSB_PAD_LEFT\<rparr>;
          j = j\<lparr>right := right j \<or> Button ps PSB_PAD_RIGHT\<rparr>;
          j = j\<lparr>up := Button ps PSB_PAD_UP \<or> Button ps PSB_R1 \<or> Button ps PSB_R2\<rparr>;
          j = j\<lparr>down := Button ps PSB_PAD_DOWN \<or> Button ps PSB_CROSS \<or> Button ps PSB_L1
                        \<or> Button ps PSB_L2\<rparr>;
          j = (if down j then j\<lparr>up := False\<rparr> else j);
          j = j\<lparr>b1 := Button ps PSB_SQUARE \<or> Button ps PSB_R3\<rparr>
      in j\<lparr>b2 := Button ps PSB_TRIANGLE \<or> Button ps PSB_L3\<rparr>)"

definition mapJoystickPlatform :: "ps2x \<Rightarrow> TwoButtonJoystick \<Rightarrow> TwoButtonJoystick" where
  "mapJoystickPlatform ps j0 =
     (let j = mapAnalogStickHorizontal ps j0;
          j = mapAnalogStickVertical ps j;
          j = j\<lparr>up := Button ps PSB_PAD_UP\<rparr>;
          j = j\<lparr>down := down j \<or> Button ps PSB_PAD_DOWN\<rparr>;
          j = j\<lparr>left := left j \<or> Button ps PSB_PAD_LEFT\<rparr>;
          j = j\<lparr>right := right j \<or> Button ps PSB_PAD_RIGHT\<rparr>;
          j = j\<lparr>up := up j \<or> Button ps PSB_CROSS\<rparr>;
          j = j\<lparr>b1 := Button ps PSB_SQUARE \<or> Button ps PSB_R1 \<or> Button ps PSB_R2
                      \<or> Button ps PSB_R3\<rparr>
      in j\<lparr>b2 := Button ps PSB_TRIANGLE \<or> Button ps PSB_L1 \<or> Button ps PSB_L2
                  \<or> Button ps PSB_L3\<rparr>)"

text \<open>The call through the function pointer.\<close>

fun callMapping :: "JoyMappingFunc \<Rightarrow> ps2x \<Rightarrow> TwoButtonJoystick \<Rightarrow> TwoButtonJoystick" where
  "callMapping MapNormal = mapJoystickNormal"
| "callMapping MapRacing1 = mapJoystickRacing1"
| "callMapping MapRacing2 = mapJoystickRacing2"
| "callMapping MapPlatform = mapJoystickPlatform"

subsection \<open>Joystick mode\<close>

text \<open>
  \<open>flashLed\<close> blinks the mode led \<open>n\<close> times. The delays are not modelled: only the
  writes to the led pin are.
\<close>

primrec flashLed :: "nat \<Rightarrow> state \<Rightarrow> state" where
  "flashLed 0 s = s"
| "flashLed (Suc n) s =
     flashLed n
       (s\<lparr>io := digitalWrite PIN_LED_MODE_CD32 LOW
                 (digitalWrite PIN_LED_MODE_CD32 HIGH (io s))\<rparr>)"

text \<open>\<open>if (f) buttonPress (pin); else buttonRelease (pin);\<close>\<close>

definition drive :: "nat \<Rightarrow> bool \<Rightarrow> pins \<Rightarrow> pins" where
  "drive p f = (if f then buttonPress p else buttonRelease p)"

definition handleJoystick :: "ps2x \<Rightarrow> state \<Rightarrow> state" where
  "handleJoystick ps s =
     (let rx = uint (Analog ps PSS_RX);
          deltaRX = rx - ANALOG_IDLE_VALUE;
          deltaRXabs = \<bar>deltaRX\<bar>;
          ry = uint (Analog ps PSS_RY);
          deltaRY = ry - ANALOG_IDLE_VALUE;
          deltaRYabs = \<bar>deltaRY\<bar>
      in if deltaRXabs > ANALOG_DEAD_ZONE \<or> deltaRYabs > ANALOG_DEAD_ZONE then
           toMouse s
         else if Button ps PSB_SELECT then
           (if Button ps PSB_SQUARE then
              flashLed JMAP_NORMAL (s\<lparr>joyMappingFunc := MapNormal\<rparr>)
            else if Button ps PSB_TRIANGLE then
              flashLed JMAP_RACING1 (s\<lparr>joyMappingFunc := MapRacing1\<rparr>)
            else if Button ps PSB_CIRCLE then
              flashLed JMAP_RACING2 (s\<lparr>joyMappingFunc := MapRacing2\<rparr>)
            else if Button ps PSB_CROSS then
              flashLed JMAP_PLATFORM (s\<lparr>joyMappingFunc := MapPlatform\<rparr>)
            else s)
         else
           let j = callMapping (joyMappingFunc s) ps
                     \<lparr>up = False, down = False, left = False, right = False,
                      b1 = False, b2 = False\<rparr>
           in s\<lparr>io := drive PIN_BTN2 (b2 j)
                         (drive PIN_BTN1 (b1 j)
                           (drive PIN_RIGHT (right j)
                             (drive PIN_LEFT (left j)
                               (drive PIN_DOWN (down j)
                                 (drive PIN_UP (up j) (io s))))))\<rparr>)"

subsection \<open>Mouse mode\<close>

text \<open>
  \<open>now\<close> is what \<open>millis ()\<close> returns during this pass of \<open>handleMouse\<close>: the pass is
  taken to be over before the millisecond counter moves on. \<open>period\<close> is an
  \<open>unsigned int\<close>, the timers are \<open>unsigned long\<close> and their difference wraps around.
  The horizontal block (lines 615-646) and the vertical block (lines 648-679) of
  \<open>handleMouse\<close> are named here.
\<close>

definition mousePeriod :: "int \<Rightarrow> uint" where
  "mousePeriod deltaAbs =
     word_of_int (map_long deltaAbs ANALOG_DEAD_ZONE ANALOG_IDLE_VALUE
                    MOUSE_SLOW_DELTA MOUSE_FAST_DELTA)"

definition mouseHorizontal :: "ps2x \<Rightarrow> ulong \<Rightarrow> state \<Rightarrow> state" where
  "mouseHorizontal ps now s =
     (let x = uint (Analog ps PSS_RX);
          deltaX = x - ANALOG_IDLE_VALUE;
          deltaXabs = \<bar>deltaX\<bar>
      in if deltaXabs > ANALOG_DEAD_ZONE then
           let period = mousePeriod deltaXabs;
               leadingPin = (if deltaX > 0 then PIN_RIGHT else PIN_DOWN);
               trailingPin = (if deltaX > 0 then PIN_DOWN else PIN_RIGHT);
               s1 = (if now - tx s \<ge> ucast period then
                       s\<lparr>io := digitalWrite leadingPin
                                  (\<not> digitalRead leadingPin (io s)) (io s),
                         tx := now\<rparr>
                     else s)
           in if now - tx s1 \<ge> ucast (period div 2) then
                s1\<lparr>io := digitalWrite trailingPin
                            (\<not> digitalRead leadingPin (io s1)) (io s1)\<rparr>
              else s1
         else s)"

definition mouseVertical :: "ps2x \<Rightarrow> ulong \<Rightarrow> state \<Rightarrow> state" where
  "mouseVertical ps now s =
     (let y = uint (Analog ps PSS_RY);
          deltaY = y - ANALOG_IDLE_VALUE;
          deltaYabs = \<bar>deltaY\<bar>
      in if deltaYabs > ANALOG_DEAD_ZONE then
           let period = mousePeriod deltaYabs;
               leadingPin = (if deltaY > 0 then PIN_LEFT else PIN_UP);
               trailingPin = (if deltaY > 0 then PIN_UP else PIN_LEFT);
               s1 = (if now - ty s \<ge> ucast period then
                       s\<lparr>io := digitalWrite leadingPin
                                  (\<not> digitalRead leadingPin (io s)) (io s),
                         ty := now\<rparr>
                     else s)
           in if now - ty s1 \<ge> ucast (period div 2) then
                s1\<lparr>io := digitalWrite trailingPin
                            (\<not> digitalRead leadingPin (io s1)) (io s1)\<rparr>
              else s1
         else s)"

definition handleMouse :: "ps2x \<Rightarrow> ulong \<Rightarrow> state \<Rightarrow> state" where
  "handleMouse ps now s =
     (if Button ps PSB_PAD_UP \<or> Button ps PSB_PAD_DOWN
         \<or> Button ps PSB_PAD_LEFT \<or> Button ps PSB_PAD_RIGHT then
        toJoystick s
      else
        let s1 = mouseHorizontal ps now s;
            s2 = mouseVertical ps now s1
        in s2\<lparr>io := drive PIN_BTN2
                        (Button ps PSB_R1 \<or> Button ps PSB_R2 \<or> Button ps PSB_R3)
                        (drive PIN_BTN1
                          (Button ps PSB_L1 \<or> Button ps PSB_L2 \<or> Button ps PSB_L3)
                          (io s2))\<rparr>)"

subsection \<open>CD32 mode\<close>

text \<open>
  \<open>if (c) buttonsLive &= ~BTN_X;\<close> is \<open>clearIf c BTN_X\<close>: the complement of the 16-bit
  constant, cut to the 8 bits of the register. \<open>analog\<close> is not initialised in the
  source; the two stick functions assign the four fields that are read.
\<close>

definition clearIf :: "bool \<Rightarrow> byte \<Rightarrow> state \<Rightarrow> state" where
  "clearIf c m s = (if c then s\<lparr>buttonsLive := buttonsLive s AND NOT m\<rparr> else s)"

definition handleCD32Pad :: "ps2x \<Rightarrow> state \<Rightarrow> state" where
  "handleCD32Pad ps s =
     (let analog = mapAnalogStickVertical ps
                     (mapAnalogStickHorizontal ps
                        \<lparr>up = False, down = False, left = False, right = False,
                         b1 = False, b2 = False\<rparr>);
          s1 = s\<lparr>io := drive PIN_RIGHT (right analog \<or> Button ps PSB_PAD_RIGHT)
                          (drive PIN_LEFT (left analog \<or> Button ps PSB_PAD_LEFT)
                            (drive PIN_DOWN (down analog \<or> Button ps PSB_PAD_DOWN)
                              (drive PIN_UP (up analog \<or> Button ps PSB_PAD_UP) (io s))))\<rparr>;
          s2 = s1\<lparr>buttonsLive := 0xFF\<rparr>
      in clearIf (Button ps PSB_R1 \<or> Button ps PSB_R2 \<or> Button ps PSB_R3) BTN_FRONT_R
           (clearIf (Button ps PSB_L1 \<or> Button ps PSB_L2 \<or> Button ps PSB_L3) BTN_FRONT_L
             (clearIf (Button ps PSB_CIRCLE) BTN_YELLOW
               (clearIf (Button ps PSB_CROSS) BTN_BLUE
                 (clearIf (Button ps PSB_SQUARE) BTN_RED
                   (clearIf (Button ps PSB_TRIANGLE) BTN_GREEN
                     (clearIf (Button ps PSB_START) BTN_START s2)))))))"

subsection \<open>The polling loop\<close>

text \<open>
  One pass of \<open>loop ()\<close> on the snapshot \<open>ps\<close> read at its start, with \<open>now\<close> what
  \<open>millis ()\<close> returns during the pass. \<open>pollMode\<close> is the \<open>switch (mode)\<close> (lines
  762-779); the timeout of CD32 mode (lines 781-790) follows it.
\<close>

definition pollMode :: "ps2x \<Rightarrow> ulong \<Rightarrow> state \<Rightarrow> state" where
  "pollMode ps now s =
     (case mode s of
        MODE_JOYSTICK \<Rightarrow>
          (let s1 = handleJoystick ps s
           in s1\<lparr>io := digitalWrite PIN_LED_MODE_CD32 LOW (io s1)\<rparr>)
      | MODE_MOUSE \<Rightarrow>
          (let s1 = handleMouse ps now s
           in s1\<lparr>io := digitalWrite PIN_LED_MODE_CD32 ((now div 500) mod 2 = 0) (io s1)\<rparr>)
      | MODE_CD32 \<Rightarrow>
          (let s1 = handleCD32Pad ps s
           in s1\<lparr>io := digitalWrite PIN_LED_MODE_CD32 HIGH (io s1)\<rparr>))"

definition loop :: "ps2x \<Rightarrow> ulong \<Rightarrow> state \<Rightarrow> state" where
  "loop ps now s =
     (let s1 = pollMode ps now s
      in if lastSwitchedTime s1 > 0 \<and> now - lastSwitchedTime s1 > TIMEOUT_CD32_MODE then
           (if wasMouse s1 then toMouse s1 else toJoystick s1)\<lparr>lastSwitchedTime := 0\<rparr>
         else s1)"

subsection \<open>Runs of the program\<close>

text \<open>
  What happens to the sketch after \<open>setup ()\<close>: a change of \<open>PIN_PADMODE\<close> (with the level
  the handler reads and the time), a rising edge of the clock pin, which runs
  \<open>onClockEdge\<close> while it is attached, or a pass of \<open>loop ()\<close>. Each is taken as one
  step: an interrupt in the middle of a pass of the loop is not modelled.
\<close>

datatype event = PadModeChange bool ulong | ClockEdge | Loop ps2x ulong

fun step :: "event \<Rightarrow> state \<Rightarrow> state" where
  "step (PadModeChange level now) s = onPadModeChange level now s"
| "step ClockEdge s = (if clockAttached s then onClockEdge s else s)"
| "step (Loop ps now) s = loop ps now s"

fun run :: "event list \<Rightarrow> state \<Rightarrow> state" where
  "run [] s = s"
| "run (e # es) s = run es (step e s)"

inductive reachable :: "state \<Rightarrow> bool" where
  reachable_init: "reachable init"
| reachable_step: "reachable s \<Longrightarrow> reachable (step e s)"

text \<open>A controller at rest: nothing pressed, both sticks at the idle value.\<close>

definition idle :: ps2x where
  "idle = \<lparr>Button = (\<lambda>b. False), Analog = (\<lambda>a. 127)\<rparr>"

subsection \<open>The data line of the shift register\<close>

text \<open>
  The level written to \<open>PIN_BTNREGOUT\<close>, and the levels it takes on \<open>k\<close> clock edges in
  a row. \<open>strobeThenClock\<close> is the line on the falling edge of \<open>PIN_PADMODE\<close> and on the
  \<open>k\<close> clock edges after it.
\<close>

definition dataLine :: "state \<Rightarrow> bool" where
  "dataLine s = port (io s PIN_BTNREGOUT)"

fun clockEdges :: "nat \<Rightarrow> state \<Rightarrow> bool list" where
  "clockEdges 0 s = []"
| "clockEdges (Suc k) s = (let s1 = onClockEdge s in dataLine s1 # clockEdges k s1)"

definition strobeThenClock :: "ulong \<Rightarrow> nat \<Rightarrow> state \<Rightarrow> bool list" where
  "strobeThenClock now k s =
     (let s1 = onPadModeChange LOW now s in dataLine s1 # clockEdges k s1)"

subsection \<open>Notions of the specification\<close>

text \<open>The signed deflection of a stick axis from its idle value, \<open>x - ANALOG_IDLE_VALUE\<close>.\<close>

definition deflection :: "ps2x \<Rightarrow> pss \<Rightarrow> int" where
  "deflection ps a = uint (Analog ps a) - ANALOG_IDLE_VALUE"

text \<open>
  The button register as the specification lays it out, from bit 0 up: Blue, Red, Yellow,
  Green, the right shoulder group, the left shoulder group, Start, and the reserved bit.
  A bit is 0 when the button (or any button of the group) is pressed.
\<close>

definition cd32Layout :: "ps2x \<Rightarrow> byte" where
  "cd32Layout ps =
     horner_sum of_bool 2
       [\<not> Button ps PSB_CROSS,
        \<not> Button ps PSB_SQUARE,
        \<not> Button ps PSB_CIRCLE,
        \<not> Button ps PSB_TRIANGLE,
        \<not> (Button ps PSB_R1 \<or> Button ps PSB_R2 \<or> Button ps PSB_R3),
        \<not> (Button ps PSB_L1 \<or> Button ps PSB_L2 \<or> Button ps PSB_L3),
        \<not> Button ps PSB_START,
        True]"



text \<open>
  One polling pass of one mouse axis, on the levels of its leading and trailing pin and
  its timer: the leading pin is inverted, and the timer restarted, when at least
  \<open>period\<close> ms have passed on the timer; then the trailing pin is set to the complement
  of the leading pin when at least \<open>period / 2\<close> ms have passed on the timer.
\<close>

definition quadratureStep ::
  "uint \<Rightarrow> ulong \<Rightarrow> bool \<times> bool \<times> ulong \<Rightarrow> bool \<times> bool \<times> ulong" where
  "quadratureStep period now q =
     (case q of (lead, trail, t) \<Rightarrow>
        let due = (now - t \<ge> ucast period);
            lead1 = (if due then \<not> lead else lead);
            t1 = (if due then now else t);
            trail1 = (if now - t1 \<ge> ucast (period div 2) then \<not> lead1 else trail)
        in (lead1, trail1, t1))"

text \<open>The levels of the two pins of a mouse axis and its timer.\<close>

definition axisState :: "nat \<Rightarrow> nat \<Rightarrow> (state \<Rightarrow> ulong) \<Rightarrow> state \<Rightarrow> bool \<times> bool \<times> ulong" where
  "axisState leadingPin trailingPin timer s =
     (port (io s leadingPin), port (io s trailingPin), timer s)"

text \<open>
  What the mode switches set up: in mouse mode the four direction pins are outputs (so
  that reading one back returns its latch), and in CD32 mode the clock interrupt is
  attached and the data pin is an output.
\<close>

definition wired :: "state \<Rightarrow> bool" where
  "wired s =
     ((mode s = MODE_MOUSE \<longrightarrow>
         ddr (io s PIN_UP) \<and> ddr (io s PIN_DOWN) \<and> ddr (io s PIN_LEFT) \<and> ddr (io s PIN_RIGHT)) \<and>
      (mode s = MODE_CD32 \<longrightarrow> clockAttached s \<and> ddr (io s PIN_BTNREGOUT)))"

subsection \<open>Controller snapshots used in examples\<close>

text \<open>Accelerate and brake held in both racing mappings.\<close>

definition gasAndBrake :: ps2x where
  "gasAndBrake =
     \<lparr>Button = (\<lambda>b. b = PSB_SQUARE \<or> b = PSB_CROSS \<or> b = PSB_R1 \<or> b = PSB_L1),
      Analog = (\<lambda>a. 127)\<rparr>"

text \<open>Nothing pressed, the right stick fully to the right.\<close>

definition stickRight :: ps2x where
  "stickRight =
     \<lparr>Button = (\<lambda>b. False), Analog = (\<lambda>a. if a = PSS_RX then 255 else 127)\<rparr>"


text \<open>The joystick structure as \<open>handleJoystick\<close> initialises it.\<close>

definition allReleased :: TwoButtonJoystick where
  "allReleased =
     \<lparr>up = False, down = False, left = False, right = False, b1 = False, b2 = False\<rparr>"

text \<open>Nothing pressed, the right stick just beyond the dead zone to the right.\<close>

definition stickNudged :: ps2x where
  "stickNudged = \<lparr>Button = (\<lambda>b. False), Analog = (\<lambda>a. if a = PSS_RX then 193 else 127)\<rparr>"

text \<open>Nothing pressed, the right stick fully to the right and up.\<close>

definition stickUpRight :: ps2x where
  "stickUpRight =
     \<lparr>Button = (\<lambda>b. False),
      Analog = (\<lambda>a. if a = PSS_RX then 255 else if a = PSS_RY then 0 else 127)\<rparr>"


text \<open>Only Cross pressed, both sticks at rest.\<close>

definition crossHeld :: ps2x where
  "crossHeld = \<lparr>Button = (\<lambda>b. b = PSB_CROSS), Analog = (\<lambda>a. 127)\<rparr>"

text \<open>Nothing pressed, both sticks fully to the right.\<close>

definition bothSticksRight :: ps2x where
  "bothSticksRight =
     \<lparr>Button = (\<lambda>b. False),
      Analog = (\<lambda>a. if a = PSS_RX \<or> a = PSS_LX then 255 else 127)\<rparr>"

section \<open>Properties\<close>

subsection \<open>The shift register\<close>

lemma clockEdges_bits:
  "clockEdges k s = map (\<lambda>i. bit (buttons s) i) [0..<k]"
proof (induction k arbitrary: s)
  case 0
  show ?case by simp
next
  case (Suc k)
  have b0: "dataLine (onClockEdge s) = bit (buttons s) 0"
    by (simp add: onClockEdge_def dataLine_def digitalWrite_def Let_def bit_0 and_one_eq
          mod_2_eq_odd)
  have sh: "buttons (onClockEdge s) = drop_bit 1 (buttons s)"
    by (simp add: onClockEdge_def Let_def)
  have "clockEdges (Suc k) s
          = bit (buttons s) 0 # map (\<lambda>i. bit (buttons s) (Suc i)) [0..<k]"
    by (simp add: Let_def b0 Suc.IH sh bit_drop_bit_eq)
  also have "\<dots> = map (\<lambda>i. bit (buttons s) i) [0..<Suc k]"
    by (simp only: map_upt_Suc)
  finally show ?case .
qed

lemma strobe_latch:
  "buttons (onPadModeChange LOW now s) = drop_bit 1 (buttonsLive s)"
  "dataLine (onPadModeChange LOW now s) = bit (buttonsLive s) 0"
  by (simp_all add: onPadModeChange_def toCD32_def Let_def dataLine_def digitalWrite_def
        bit_0 and_one_eq mod_2_eq_odd)

lemma byte_bits_tail:
  "map (bit (R::byte)) [0..<Suc k] = take (Suc k) (map (bit R) [0..<8] @ replicate k False)"
proof (rule nth_equalityI)
  show "length (map (bit R) [0..<Suc k])
          = length (take (Suc k) (map (bit R) [0..<8] @ replicate k False))"
    by simp
next
  fix i assume "i < length (map (bit R) [0..<Suc k])"
  then have i: "i < Suc k" by simp
  have l: "map (bit R) [0..<Suc k] ! i = bit R i"
    using i by (simp del: upt_Suc)
  have r: "take (Suc k) (map (bit R) [0..<8] @ replicate k False) ! i
             = (map (bit R) [0..<8] @ replicate k False) ! i"
    using i by (simp only: nth_take)
  have "(map (bit R) [0..<8] @ replicate k False) ! i = bit R i"
  proof (cases "i < 8")
    case True
    then show ?thesis by (simp add: nth_append del: upt_Suc)
  next
    case False
    then have "\<not> bit R i" by (auto dest: bit_imp_le_length)
    with False i show ?thesis by (simp add: nth_append del: upt_Suc)
  qed
  with l r show "map (bit R) [0..<Suc k] ! i
                   = take (Suc k) (map (bit R) [0..<8] @ replicate k False) ! i"
    by simp
qed

text \<open>
  C1. Whatever the live register holds (so in particular when its reserved bit 7 is 1),
  the falling edge of \<open>PIN_PADMODE\<close> followed by \<open>k\<close> clock edges puts on the data line,
  one level per edge, the first \<open>k + 1\<close> elements of the sequence made of the eight bits
  of the live register, bit 0 first, followed by zeros only.
\<close>

theorem serial_shift_out:
  "strobeThenClock now k s =
     take (Suc k) (map (bit (buttonsLive s)) [0..<8] @ replicate k False)"
proof -
  have "strobeThenClock now k s =
          bit (buttonsLive s) 0 # map (\<lambda>i. bit (buttonsLive s) (Suc i)) [0..<k]"
    by (simp add: strobeThenClock_def Let_def strobe_latch clockEdges_bits bit_drop_bit_eq)
  also have "\<dots> = map (bit (buttonsLive s)) [0..<Suc k]"
    by (simp only: map_upt_Suc)
  finally show ?thesis by (simp only: byte_bits_tail)
qed

text \<open>
  The very first report, from the initial live register \<open>0x80\<close>: seven pressed buttons,
  the reserved bit, and two more zeros on the ninth and tenth edge.
\<close>

theorem serial_shift_out_witness:
  "strobeThenClock 0 9 init
     = [False, False, False, False, False, False, False, True, False, False]"
proof -
  have "map (bit (0x80::byte)) [0..<8]
          = [False, False, False, False, False, False, False, True]"
    by (simp add: upt_rec bit_numeral_rec)
  then show ?thesis
    using serial_shift_out [of 0 9 init] by (simp add: init_def numeral_2_eq_2)
qed

subsection \<open>Button mappings\<close>

text \<open>
  C4. In the mappings Racing1 and Racing2, for every controller snapshot (and whatever the
  joystick structure held before), a result with \<open>down\<close> set has \<open>up\<close> clear.
\<close>

theorem racing_brake_wins:
  "(down (mapJoystickRacing1 ps j) \<longrightarrow> \<not> up (mapJoystickRacing1 ps j)) \<and>
   (down (mapJoystickRacing2 ps j) \<longrightarrow> \<not> up (mapJoystickRacing2 ps j))"
  by (simp add: mapJoystickRacing1_def mapJoystickRacing2_def mapAnalogStickHorizontal_def
        Let_def)

theorem racing_brake_wins_witness:
  "down (mapJoystickRacing1 gasAndBrake allReleased) \<and>
   \<not> up (mapJoystickRacing1 gasAndBrake allReleased) \<and>
   down (mapJoystickRacing2 gasAndBrake allReleased) \<and>
   \<not> up (mapJoystickRacing2 gasAndBrake allReleased)"
proof -
  have d: "down (mapJoystickRacing1 gasAndBrake allReleased)"
    "down (mapJoystickRacing2 gasAndBrake allReleased)"
    by (simp_all add: mapJoystickRacing1_def mapJoystickRacing2_def
          mapAnalogStickHorizontal_def gasAndBrake_def Let_def)
  with racing_brake_wins [of gasAndBrake allReleased] show ?thesis by blast
qed

subsection \<open>The layout of the live register\<close>

lemmas BTN_defs = BTN_BLUE_def BTN_RED_def BTN_YELLOW_def BTN_GREEN_def
  BTN_FRONT_R_def BTN_FRONT_L_def BTN_START_def

lemma clear_bit_byte:
  "bit ((w::byte) AND NOT (push_bit k 1)) n = (bit w n \<and> n \<noteq> k)"
  by (auto simp add: bit_and_iff bit_not_iff bit_exp_iff dest: bit_imp_le_length)

lemma bit_clearIf:
  "bit (buttonsLive (clearIf c (push_bit k 1) s)) n
     = (bit (buttonsLive s) n \<and> \<not> (c \<and> n = k))"
  by (simp add: clearIf_def clear_bit_byte del: push_bit_of_1)

lemma bit_clearIf_BTN:
  "bit (buttonsLive (clearIf c BTN_BLUE s)) n = (bit (buttonsLive s) n \<and> \<not> (c \<and> n = 0))"
  "bit (buttonsLive (clearIf c BTN_RED s)) n = (bit (buttonsLive s) n \<and> \<not> (c \<and> n = 1))"
  "bit (buttonsLive (clearIf c BTN_YELLOW s)) n = (bit (buttonsLive s) n \<and> \<not> (c \<and> n = 2))"
  "bit (buttonsLive (clearIf c BTN_GREEN s)) n = (bit (buttonsLive s) n \<and> \<not> (c \<and> n = 3))"
  "bit (buttonsLive (clearIf c BTN_FRONT_R s)) n = (bit (buttonsLive s) n \<and> \<not> (c \<and> n = 4))"
  "bit (buttonsLive (clearIf c BTN_FRONT_L s)) n = (bit (buttonsLive s) n \<and> \<not> (c \<and> n = 5))"
  "bit (buttonsLive (clearIf c BTN_START s)) n = (bit (buttonsLive s) n \<and> \<not> (c \<and> n = 6))"
  unfolding BTN_defs by (rule bit_clearIf)+

lemma clearIf_eq:
  "clearIf c m s = s\<lparr>buttonsLive := (if c then buttonsLive s AND NOT m else buttonsLive s)\<rparr>"
  by (simp add: clearIf_def)

lemma buttonsLive_handleCD32Pad_bit:
  "bit (buttonsLive (handleCD32Pad ps s)) n =
     (n < 8 \<and>
      \<not> (Button ps PSB_CROSS \<and> n = 0) \<and>
      \<not> (Button ps PSB_SQUARE \<and> n = 1) \<and>
      \<not> (Button ps PSB_CIRCLE \<and> n = 2) \<and>
      \<not> (Button ps PSB_TRIANGLE \<and> n = 3) \<and>
      \<not> ((Button ps PSB_R1 \<or> Button ps PSB_R2 \<or> Button ps PSB_R3) \<and> n = 4) \<and>
      \<not> ((Button ps PSB_L1 \<or> Button ps PSB_L2 \<or> Button ps PSB_L3) \<and> n = 5) \<and>
      \<not> (Button ps PSB_START \<and> n = 6))"
proof -
  have ff: "(0xFF::byte) = - 1" by simp
  have "bit (buttonsLive (handleCD32Pad ps s)) n =
     (((((((n < 8 \<and>
      \<not> (Button ps PSB_START \<and> n = 6)) \<and>
      \<not> (Button ps PSB_TRIANGLE \<and> n = 3)) \<and>
      \<not> (Button ps PSB_SQUARE \<and> n = 1)) \<and>
      \<not> (Button ps PSB_CROSS \<and> n = 0)) \<and>
      \<not> (Button ps PSB_CIRCLE \<and> n = 2)) \<and>
      \<not> ((Button ps PSB_L1 \<or> Button ps PSB_L2 \<or> Button ps PSB_L3) \<and> n = 5)) \<and>
      \<not> ((Button ps PSB_R1 \<or> Button ps PSB_R2 \<or> Button ps PSB_R3) \<and> n = 4))"
    unfolding handleCD32Pad_def Let_def ff bit_clearIf_BTN
    by (simp add: bit_minus_1_iff)
  then show ?thesis by blast
qed

lemma handleCD32Pad_layout: "buttonsLive (handleCD32Pad ps s) = cd32Layout ps"
proof (rule bit_word_eqI)
  fix n assume "n < LENGTH(8)"
  then have "n < 8" by simp
  then consider "n = 0" | "n = 1" | "n = 2" | "n = 3" | "n = 4" | "n = 5" | "n = 6" | "n = 7"
    by linarith
  then show "bit (buttonsLive (handleCD32Pad ps s)) n = bit (cd32Layout ps) n"
    by cases
      (simp_all add: buttonsLive_handleCD32Pad_bit cd32Layout_def bit_horner_sum_bit_word_iff)
qed

lemma clearIf_fields [simp]:
  "mode (clearIf c m s) = mode s"
  "joyMappingFunc (clearIf c m s) = joyMappingFunc s"
  "wasMouse (clearIf c m s) = wasMouse s"
  "buttons (clearIf c m s) = buttons s"
  "lastSwitchedTime (clearIf c m s) = lastSwitchedTime s"
  "tx (clearIf c m s) = tx s"
  "ty (clearIf c m s) = ty s"
  "io (clearIf c m s) = io s"
  "clockAttached (clearIf c m s) = clockAttached s"
  "state.more (clearIf c m s) = state.more s"
  by (simp_all add: clearIf_def)

lemma clearIf_profile:
  "clearIf c m (s\<lparr>joyMappingFunc := f\<rparr>) = (clearIf c m s)\<lparr>joyMappingFunc := f\<rparr>"
  by (simp add: clearIf_def)

lemma io_handleCD32Pad:
  "io (handleCD32Pad ps s) =
     drive PIN_RIGHT (ANALOG_DEAD_ZONE < deflection ps PSS_LX \<or> Button ps PSB_PAD_RIGHT)
       (drive PIN_LEFT (deflection ps PSS_LX < - ANALOG_DEAD_ZONE \<or> Button ps PSB_PAD_LEFT)
         (drive PIN_DOWN (ANALOG_DEAD_ZONE < deflection ps PSS_LY \<or> Button ps PSB_PAD_DOWN)
           (drive PIN_UP (deflection ps PSS_LY < - ANALOG_DEAD_ZONE \<or> Button ps PSB_PAD_UP)
             (io s))))"
  by (simp add: handleCD32Pad_def Let_def mapAnalogStickHorizontal_def
        mapAnalogStickVertical_def deflection_def)

lemma handleCD32Pad_fields [simp]:
  "mode (handleCD32Pad ps s) = mode s"
  "joyMappingFunc (handleCD32Pad ps s) = joyMappingFunc s"
  "wasMouse (handleCD32Pad ps s) = wasMouse s"
  "buttons (handleCD32Pad ps s) = buttons s"
  "lastSwitchedTime (handleCD32Pad ps s) = lastSwitchedTime s"
  "tx (handleCD32Pad ps s) = tx s"
  "ty (handleCD32Pad ps s) = ty s"
  "clockAttached (handleCD32Pad ps s) = clockAttached s"
  "state.more (handleCD32Pad ps s) = state.more s"
  by (simp_all add: handleCD32Pad_def Let_def)

lemma handleCD32Pad_profile:
  "handleCD32Pad ps (s\<lparr>joyMappingFunc := f\<rparr>) = (handleCD32Pad ps s)\<lparr>joyMappingFunc := f\<rparr>"
  by (rule state.equality) (simp_all add: handleCD32Pad_layout io_handleCD32Pad)

lemma digitalWrite_twice [simp]:
  "digitalWrite p v (digitalWrite p w x) = digitalWrite p v x"
  by (simp add: digitalWrite_def fun_eq_iff)

lemma flashLed_eq:
  "flashLed n s = (if n = 0 then s else s\<lparr>io := digitalWrite PIN_LED_MODE_CD32 LOW (io s)\<rparr>)"
  by (induction n arbitrary: s) simp_all

lemma buttonsLive_switches [simp]:
  "buttonsLive (toMouse s) = buttonsLive s"
  "buttonsLive (toJoystick s) = buttonsLive s"
  "buttonsLive (toCD32 s) = buttonsLive s"
  by (simp_all add: toMouse_def toJoystick_def toCD32_def)

lemma buttonsLive_isr [simp]:
  "buttonsLive (onPadModeChange level now s) = buttonsLive s"
  "buttonsLive (onClockEdge s) = buttonsLive s"
  by (simp_all add: onPadModeChange_def onClockEdge_def Let_def)

lemma buttonsLive_handleJoystick [simp]:
  "buttonsLive (handleJoystick ps s) = buttonsLive s"
  by (simp add: handleJoystick_def Let_def flashLed_eq)

lemma buttonsLive_handleMouse [simp]:
  "buttonsLive (handleMouse ps now s) = buttonsLive s"
  by (simp add: handleMouse_def mouseHorizontal_def mouseVertical_def Let_def)

lemma buttonsLive_pollMode:
  "buttonsLive (pollMode ps now s)
     = (if mode s = MODE_CD32 then cd32Layout ps else buttonsLive s)"
  by (cases "mode s") (simp_all add: pollMode_def Let_def handleCD32Pad_layout)

lemma buttonsLive_loop:
  "buttonsLive (loop ps now s)
     = (if mode s = MODE_CD32 then cd32Layout ps else buttonsLive s)"
  by (simp add: loop_def Let_def buttonsLive_pollMode)

lemma reserved_cd32Layout: "bit (cd32Layout ps) 7"
  by (simp add: cd32Layout_def bit_horner_sum_bit_word_iff)

lemma reserved_step: "bit (buttonsLive s) 7 \<Longrightarrow> bit (buttonsLive (step e s)) 7"
  by (cases e) (simp_all add: buttonsLive_loop reserved_cd32Layout)

text \<open>
  C2. In every state the program can reach, bit 7 of the live register, which is what the
  falling edge of \<open>PIN_PADMODE\<close> hands to the shifter, is 1: it is set in the initial
  value \<open>0x80\<close>, and \<open>handleCD32Pad\<close>, the only writer, starts from \<open>0xFF\<close> and clears
  bits 0 to 6 only.
\<close>

theorem reserved_bit_invariant: "reachable s \<Longrightarrow> bit (buttonsLive s) 7"
proof (induction rule: reachable.induct)
  case reachable_init
  show ?case by (simp add: init_def bit_numeral_rec)
next
  case (reachable_step s e)
  then show ?case by (simp add: reserved_step)
qed

theorem reserved_bit_invariant_witness:
  "reachable (step (Loop gasAndBrake 5) (step (PadModeChange LOW 0) init)) \<and>
   bit (buttonsLive (step (Loop gasAndBrake 5) (step (PadModeChange LOW 0) init))) 7"
proof -
  have r: "reachable (step (Loop gasAndBrake 5) (step (PadModeChange LOW 0) init))"
    by (intro reachable_step reachable_init)
  from r reserved_bit_invariant [OF r] show ?thesis by (rule conjI)
qed

subsection \<open>The period of the mouse emulation\<close>

lemma map_long_period:
  assumes "65 \<le> d"
  shows "map_long d ANALOG_DEAD_ZONE ANALOG_IDLE_VALUE MOUSE_SLOW_DELTA MOUSE_FAST_DELTA
           = 60 - ((d - 65) * 54) div 62"
proof (cases "d = 65")
  case True
  then show ?thesis by (simp add: map_long_def)
next
  case False
  with assms have "0 < d - 65" by simp
  then have "sgn ((d - 65) * (- 54)) = - 1"
    by (simp add: sgn_mult)
  moreover have "\<bar>(d - 65) * (- 54)\<bar> = (d - 65) * 54"
    using assms by (simp add: abs_mult)
  ultimately show ?thesis
    by (simp add: map_long_def signed_divide_int_def)
qed

lemma uint_mousePeriod:
  assumes "65 \<le> d" "d \<le> 128"
  shows "uint (mousePeriod d) = 60 - ((d - 65) * 54) div 62"
proof -
  have "0 \<le> (d - 65) * 54 div 62" using assms by simp
  moreover have "(d - 65) * 54 div 62 \<le> 63 * 54 div 62"
    using assms by (intro zdiv_mono1) simp_all
  ultimately have "0 \<le> 60 - ((d - 65) * 54) div 62" "60 - ((d - 65) * 54) div 62 < 2 ^ 16"
    by simp_all
  then have "take_bit 16 (60 - ((d - 65) * 54) div 62) = 60 - ((d - 65) * 54) div 62"
    by (intro take_bit_int_eq_self) simp_all
  moreover have "uint (word_of_int k :: uint) = take_bit 16 k" for k
    by (simp add: uint_word_of_int_eq)
  ultimately show ?thesis
    unfolding mousePeriod_def map_long_period [OF assms(1)] by (simp only:)
qed

lemma mousePeriod_mono:
  assumes "65 \<le> d1" "d1 \<le> d2" "d2 \<le> 128"
  shows "mousePeriod d2 \<le> mousePeriod d1"
proof -
  have "(d1 - 65) * 54 div 62 \<le> (d2 - 65) * 54 div 62"
    using assms by (intro zdiv_mono1) simp_all
  then have "uint (mousePeriod d2) \<le> uint (mousePeriod d1)"
    using assms by (simp add: uint_mousePeriod)
  then show ?thesis by (simp add: word_le_def)
qed

lemma deflection_range: "\<bar>deflection ps a\<bar> \<le> 128"
proof -
  have "0 \<le> uint (Analog ps a)" by simp
  moreover have "uint (Analog ps a) < 256" using uint_bounded [of "Analog ps a"] by simp
  ultimately show ?thesis unfolding deflection_def ANALOG_IDLE_VALUE_def by linarith
qed

text \<open>
  C6. For two readings of a stick axis whose deflections are beyond the dead zone and of
  the same sign, the larger deflection never has the longer toggle period.
\<close>

theorem quadrature_period_monotone:
  assumes "ANALOG_DEAD_ZONE < \<bar>deflection p1 a\<bar>"
    and "\<bar>deflection p1 a\<bar> < \<bar>deflection p2 a\<bar>"
    and "(0 < deflection p1 a) = (0 < deflection p2 a)"
  shows "mousePeriod \<bar>deflection p2 a\<bar> \<le> mousePeriod \<bar>deflection p1 a\<bar>"
  using assms(1,2) deflection_range [of p2 a] by (intro mousePeriod_mono) simp_all

lemma mousePeriod_128: "mousePeriod 128 = 6"
  by (simp add: mousePeriod_def map_long_def signed_divide_int_def)

lemma mousePeriod_66: "mousePeriod 66 = 60"
  by (simp add: mousePeriod_def map_long_def signed_divide_int_def)

theorem quadrature_period_monotone_witness:
  "ANALOG_DEAD_ZONE < \<bar>deflection stickNudged PSS_RX\<bar> \<and>
   \<bar>deflection stickNudged PSS_RX\<bar> < \<bar>deflection stickRight PSS_RX\<bar> \<and>
   (0 < deflection stickNudged PSS_RX) = (0 < deflection stickRight PSS_RX) \<and>
   mousePeriod \<bar>deflection stickNudged PSS_RX\<bar> = 60 \<and>
   mousePeriod \<bar>deflection stickRight PSS_RX\<bar> = 6 \<and>
   mousePeriod \<bar>deflection stickRight PSS_RX\<bar> \<le> mousePeriod \<bar>deflection stickNudged PSS_RX\<bar>"
proof -
  have d: "deflection stickNudged PSS_RX = 66" "deflection stickRight PSS_RX = 128"
    by (simp_all add: deflection_def stickNudged_def stickRight_def)
  have h: "ANALOG_DEAD_ZONE < \<bar>deflection stickNudged PSS_RX\<bar>"
    "\<bar>deflection stickNudged PSS_RX\<bar> < \<bar>deflection stickRight PSS_RX\<bar>"
    "(0 < deflection stickNudged PSS_RX) = (0 < deflection stickRight PSS_RX)"
    by (simp_all add: d)
  have v: "mousePeriod \<bar>deflection stickNudged PSS_RX\<bar> = 60"
    "mousePeriod \<bar>deflection stickRight PSS_RX\<bar> = 6"
    by (simp_all add: d mousePeriod_128 mousePeriod_66)
  from h v quadrature_period_monotone [OF h] show ?thesis by blast
qed

subsection \<open>The refresh of the live register\<close>

text \<open>
  C9 (as amended). A pass of \<open>loop ()\<close> refreshes the live register from the snapshot, in
  the layout of the specification and with the reserved bit 1, when it starts in CD32
  mode; a pass that starts in joystick or mouse mode leaves the live register as it was.
\<close>

theorem live_register_refresh:
  "(mode s = MODE_CD32 \<longrightarrow> buttonsLive (loop ps now s) = cd32Layout ps) \<and>
   (mode s \<noteq> MODE_CD32 \<longrightarrow> buttonsLive (loop ps now s) = buttonsLive s)"
  by (simp add: buttonsLive_loop)

theorem live_register_refresh_witness:
  "mode (onPadModeChange LOW 0 init) = MODE_CD32 \<and>
   buttonsLive (loop gasAndBrake 5 (onPadModeChange LOW 0 init)) = 0xCC \<and>
   mode init = MODE_JOYSTICK \<and>
   buttonsLive (loop gasAndBrake 5 init) = 0x80"
proof -
  have m: "mode (onPadModeChange LOW 0 init) = MODE_CD32" "mode init = MODE_JOYSTICK"
    by (simp_all add: onPadModeChange_def toCD32_def init_def Let_def)
  have "cd32Layout gasAndBrake = 0xCC"
    by (simp add: cd32Layout_def gasAndBrake_def)
  moreover have "buttonsLive init = 0x80" by (simp add: init_def)
  ultimately show ?thesis
    using m live_register_refresh [of "onPadModeChange LOW 0 init" gasAndBrake 5]
      live_register_refresh [of init gasAndBrake 5]
    by simp
qed

text \<open>
  In joystick mode the register is not refreshed: with nothing pressed the layout is
  \<open>0xFF\<close>, and the live register still reads \<open>0x80\<close>, seven pressed buttons, after the
  pass.
\<close>

theorem live_register_stale:
  "mode init = MODE_JOYSTICK \<and> cd32Layout idle = 0xFF \<and> buttonsLive (loop idle 0 init) = 0x80"
  by (simp add: buttonsLive_loop init_def cd32Layout_def idle_def)

subsection \<open>Mode transitions\<close>





lemmas program_defs = handleJoystick_def handleMouse_def mouseHorizontal_def mouseVertical_def
  pollMode_def loop_def onPadModeChange_def onClockEdge_def toMouse_def toJoystick_def
  toCD32_def init_def Let_def pinMode_def digitalWrite_def digitalRead_def buttonPress_def
  buttonRelease_def drive_def power_on_def mapAnalogStickHorizontal_def
  mapAnalogStickVertical_def mapJoystickNormal_def








text \<open>
  C3. The timeout of CD32 mode fires although its condition does not hold: the line goes
  low at 100 ms (CD32 mode is entered), high at 110 ms, and low again at 120 ms, where it
  stays. The pass of the loop at 311 ms finds the rising edge of 110 ms more than 200 ms
  old and goes back to joystick mode, with the line asserted and only 191 ms after its
  last change.
\<close>

theorem cd32_timeout_while_asserted:
  "mode (run [PadModeChange LOW 100, PadModeChange HIGH 110, PadModeChange LOW 120] init)
     = MODE_CD32 \<and>
   lastSwitchedTime
     (run [PadModeChange LOW 100, PadModeChange HIGH 110, PadModeChange LOW 120] init) = 110 \<and>
   mode (run [PadModeChange LOW 100, PadModeChange HIGH 110, PadModeChange LOW 120,
              Loop idle 311] init) = MODE_JOYSTICK"
  by (simp add: program_defs idle_def)

subsection \<open>Pins\<close>

lemma ddr_drive: "ddr (drive p f x q) = (if q = p then f else ddr (x q))"
  by (simp add: drive_def buttonPress_def buttonRelease_def pinMode_def)

lemma port_drive: "port (drive p f x q) = (if q = p then f \<and> port (x q) else port (x q))"
  by (simp add: drive_def buttonPress_def buttonRelease_def pinMode_def)

lemma port_pinMode_OUTPUT: "port (pinMode p OUTPUT x q) = port (x q)"
  by (simp add: pinMode_def)

lemma port_pinMode_INPUT: "port (pinMode p INPUT x q) = (q \<noteq> p \<and> port (x q))"
  by (simp add: pinMode_def)

lemma port_digitalWrite: "port (digitalWrite p v x q) = (if q = p then v else port (x q))"
  by (simp add: digitalWrite_def)

text \<open>
  With a pass of the loop taken as one step, no step in CD32 mode depends on the selected
  mapping, which it only carries along.
\<close>

lemma step_profile:
  "mode s = MODE_CD32 \<Longrightarrow>
   step e (s\<lparr>joyMappingFunc := f\<rparr>) = (step e s)\<lparr>joyMappingFunc := f\<rparr>"
  by (cases e)
     (simp_all add: onPadModeChange_def onClockEdge_def loop_def pollMode_def Let_def
        handleCD32Pad_profile toMouse_def toJoystick_def)

text \<open>
  C10. A direction that is indicated is not always active (driven low) in CD32 mode. In
  mouse mode with both sticks fully right, \<open>PIN_RIGHT\<close> is toggled high at 1000 ms; the
  line goes low at 1001 ms and CD32 mode is entered, which leaves the direction pins as
  they are; the pass at 1002 ms presses \<open>PIN_RIGHT\<close> for the left stick, which makes the
  pin an output without writing it: the line is driven high.
\<close>

theorem cd32_direction_driven_high:
  "mode (run [Loop bothSticksRight 0, Loop bothSticksRight 1000, PadModeChange LOW 1001] init)
     = MODE_CD32 \<and>
   ANALOG_DEAD_ZONE < deflection bothSticksRight PSS_LX \<and>
   mode (run [Loop bothSticksRight 0, Loop bothSticksRight 1000, PadModeChange LOW 1001,
              Loop bothSticksRight 1002] init) = MODE_CD32 \<and>
   io (run [Loop bothSticksRight 0, Loop bothSticksRight 1000, PadModeChange LOW 1001,
            Loop bothSticksRight 1002] init) PIN_RIGHT = \<lparr>ddr = True, port = HIGH\<rparr>"
  by (simp add: program_defs io_handleCD32Pad bothSticksRight_def deflection_def
        mousePeriod_128)

text \<open>No handler sets the latch of a line it presses or releases.\<close>

lemma port_handleJoystick:
  "\<not> port (io s p) \<Longrightarrow> p \<noteq> PIN_LED_MODE_CD32 \<Longrightarrow> \<not> port (io (handleJoystick ps s) p)"
  by (auto simp add: handleJoystick_def Let_def flashLed_eq toMouse_def port_pinMode_OUTPUT
        port_drive port_digitalWrite)

lemma port_mouseHorizontal:
  "p \<notin> {PIN_UP, PIN_DOWN, PIN_LEFT, PIN_RIGHT}
   \<Longrightarrow> port (io (mouseHorizontal ps now s) p) = port (io s p)"
  by (auto simp add: mouseHorizontal_def Let_def port_digitalWrite)

lemma port_mouseVertical:
  "p \<notin> {PIN_UP, PIN_DOWN, PIN_LEFT, PIN_RIGHT}
   \<Longrightarrow> port (io (mouseVertical ps now s) p) = port (io s p)"
  by (auto simp add: mouseVertical_def Let_def port_digitalWrite)

lemma port_handleMouse:
  "\<not> port (io s p) \<Longrightarrow> p \<notin> {PIN_UP, PIN_DOWN, PIN_LEFT, PIN_RIGHT}
   \<Longrightarrow> \<not> port (io (handleMouse ps now s) p)"
  by (auto simp add: handleMouse_def Let_def toJoystick_def port_pinMode_INPUT port_drive
        port_digitalWrite port_mouseHorizontal port_mouseVertical)

lemma port_handleCD32Pad:
  "\<not> port (io s p) \<Longrightarrow> \<not> port (io (handleCD32Pad ps s) p)"
  by (auto simp add: io_handleCD32Pad port_drive)








text \<open>
  A pressed line drives whatever its latch holds. After a CD32 session that ends on the
  reserved bit (the strobe and seven clock edges), the latch of the data pin \<open>PIN_BTN2\<close>
  is high and the pin is an output; \<open>toJoystick\<close> leaves it so, and pressing Cross in
  joystick mode keeps button 2 a high output.
\<close>

theorem pressed_button_driven_high:
  "mode (run [PadModeChange LOW 100, ClockEdge, ClockEdge, ClockEdge, ClockEdge, ClockEdge,
              ClockEdge, ClockEdge, PadModeChange HIGH 110, Loop idle 400] init)
     = MODE_JOYSTICK \<and>
   Button crossHeld PSB_CROSS \<and>
   io (run [PadModeChange LOW 100, ClockEdge, ClockEdge, ClockEdge, ClockEdge, ClockEdge,
            ClockEdge, ClockEdge, PadModeChange HIGH 110, Loop idle 400,
            Loop crossHeld 410] init) PIN_BTN2 = \<lparr>ddr = True, port = HIGH\<rparr>"
  by (simp add: program_defs io_handleCD32Pad idle_def crossHeld_def deflection_def)

subsection \<open>The quadrature signal\<close>

lemma axis_mouseHorizontal:
  "ANALOG_DEAD_ZONE < deflection ps PSS_RX \<Longrightarrow>
   axisState PIN_RIGHT PIN_DOWN tx (mouseHorizontal ps now s)
     = quadratureStep (mousePeriod \<bar>deflection ps PSS_RX\<bar>) now
         (axisState PIN_RIGHT PIN_DOWN tx s)"
  "deflection ps PSS_RX < - ANALOG_DEAD_ZONE \<Longrightarrow>
   axisState PIN_DOWN PIN_RIGHT tx (mouseHorizontal ps now s)
     = quadratureStep (mousePeriod \<bar>deflection ps PSS_RX\<bar>) now
         (axisState PIN_DOWN PIN_RIGHT tx s)"
  by (simp_all add: mouseHorizontal_def axisState_def quadratureStep_def deflection_def
        Let_def digitalWrite_def digitalRead_def)

lemma axis_mouseVertical:
  "ANALOG_DEAD_ZONE < deflection ps PSS_RY \<Longrightarrow>
   axisState PIN_LEFT PIN_UP ty (mouseVertical ps now s)
     = quadratureStep (mousePeriod \<bar>deflection ps PSS_RY\<bar>) now
         (axisState PIN_LEFT PIN_UP ty s)"
  "deflection ps PSS_RY < - ANALOG_DEAD_ZONE \<Longrightarrow>
   axisState PIN_UP PIN_LEFT ty (mouseVertical ps now s)
     = quadratureStep (mousePeriod \<bar>deflection ps PSS_RY\<bar>) now
         (axisState PIN_UP PIN_LEFT ty s)"
  by (simp_all add: mouseVertical_def axisState_def quadratureStep_def deflection_def
        Let_def digitalWrite_def digitalRead_def)

lemma horizontal_frame:
  "axisState PIN_LEFT PIN_UP ty (mouseHorizontal ps now s) = axisState PIN_LEFT PIN_UP ty s"
  "axisState PIN_UP PIN_LEFT ty (mouseHorizontal ps now s) = axisState PIN_UP PIN_LEFT ty s"
  by (simp_all add: mouseHorizontal_def axisState_def Let_def digitalWrite_def)

lemma vertical_frame:
  "axisState PIN_RIGHT PIN_DOWN tx (mouseVertical ps now s) = axisState PIN_RIGHT PIN_DOWN tx s"
  "axisState PIN_DOWN PIN_RIGHT tx (mouseVertical ps now s) = axisState PIN_DOWN PIN_RIGHT tx s"
  by (simp_all add: mouseVertical_def axisState_def Let_def digitalWrite_def)

lemma axis_handleMouse:
  assumes "\<not> (Button ps PSB_PAD_UP \<or> Button ps PSB_PAD_DOWN \<or> Button ps PSB_PAD_LEFT
                \<or> Button ps PSB_PAD_RIGHT)"
    and "l \<in> {PIN_UP, PIN_DOWN, PIN_LEFT, PIN_RIGHT}"
    and "t \<in> {PIN_UP, PIN_DOWN, PIN_LEFT, PIN_RIGHT}"
  shows "axisState l t tx (handleMouse ps now s)
           = axisState l t tx (mouseVertical ps now (mouseHorizontal ps now s))"
    and "axisState l t ty (handleMouse ps now s)
           = axisState l t ty (mouseVertical ps now (mouseHorizontal ps now s))"
  using assms by (auto simp add: handleMouse_def axisState_def Let_def port_drive)

text \<open>
  C8 (as amended). In a pass of \<open>handleMouse\<close> with no D-pad button pressed, each axis
  deflected beyond the dead zone takes one \<open>quadratureStep\<close> on its own two pins and its
  own timer, with the period of its own deflection: the leading pin (chosen by the sign
  of the deflection) is inverted when the period has passed, and the trailing pin is then
  set to the complement of the leading pin when half the period has passed since the
  leading pin last toggled. Nothing of the other axis enters the step.
\<close>

theorem mouse_quadrature:
  assumes "\<not> (Button ps PSB_PAD_UP \<or> Button ps PSB_PAD_DOWN \<or> Button ps PSB_PAD_LEFT
                \<or> Button ps PSB_PAD_RIGHT)"
  shows
    "(ANALOG_DEAD_ZONE < deflection ps PSS_RX \<longrightarrow>
        axisState PIN_RIGHT PIN_DOWN tx (handleMouse ps now s)
          = quadratureStep (mousePeriod \<bar>deflection ps PSS_RX\<bar>) now
              (axisState PIN_RIGHT PIN_DOWN tx s)) \<and>
     (deflection ps PSS_RX < - ANALOG_DEAD_ZONE \<longrightarrow>
        axisState PIN_DOWN PIN_RIGHT tx (handleMouse ps now s)
          = quadratureStep (mousePeriod \<bar>deflection ps PSS_RX\<bar>) now
              (axisState PIN_DOWN PIN_RIGHT tx s)) \<and>
     (ANALOG_DEAD_ZONE < deflection ps PSS_RY \<longrightarrow>
        axisState PIN_LEFT PIN_UP ty (handleMouse ps now s)
          = quadratureStep (mousePeriod \<bar>deflection ps PSS_RY\<bar>) now
              (axisState PIN_LEFT PIN_UP ty s)) \<and>
     (deflection ps PSS_RY < - ANALOG_DEAD_ZONE \<longrightarrow>
        axisState PIN_UP PIN_LEFT ty (handleMouse ps now s)
          = quadratureStep (mousePeriod \<bar>deflection ps PSS_RY\<bar>) now
              (axisState PIN_UP PIN_LEFT ty s))"
proof -
  have pins: "PIN_RIGHT \<in> {PIN_UP, PIN_DOWN, PIN_LEFT, PIN_RIGHT}"
    "PIN_DOWN \<in> {PIN_UP, PIN_DOWN, PIN_LEFT, PIN_RIGHT}"
    "PIN_LEFT \<in> {PIN_UP, PIN_DOWN, PIN_LEFT, PIN_RIGHT}"
    "PIN_UP \<in> {PIN_UP, PIN_DOWN, PIN_LEFT, PIN_RIGHT}"
    by simp_all
  have right: "axisState PIN_RIGHT PIN_DOWN tx (handleMouse ps now s)
          = quadratureStep (mousePeriod \<bar>deflection ps PSS_RX\<bar>) now
              (axisState PIN_RIGHT PIN_DOWN tx s)"
    if d: "ANALOG_DEAD_ZONE < deflection ps PSS_RX"
  proof -
    have "axisState PIN_RIGHT PIN_DOWN tx (handleMouse ps now s)
            = axisState PIN_RIGHT PIN_DOWN tx (mouseVertical ps now (mouseHorizontal ps now s))"
      by (rule axis_handleMouse(1) [OF assms pins(1) pins(2)])
    also have "\<dots> = axisState PIN_RIGHT PIN_DOWN tx (mouseHorizontal ps now s)"
      by (rule vertical_frame)
    also have "\<dots> = quadratureStep (mousePeriod \<bar>deflection ps PSS_RX\<bar>) now
                       (axisState PIN_RIGHT PIN_DOWN tx s)"
      by (rule axis_mouseHorizontal(1) [OF d])
    finally show ?thesis .
  qed
  have left: "axisState PIN_DOWN PIN_RIGHT tx (handleMouse ps now s)
          = quadratureStep (mousePeriod \<bar>deflection ps PSS_RX\<bar>) now
              (axisState PIN_DOWN PIN_RIGHT tx s)"
    if d: "deflection ps PSS_RX < - ANALOG_DEAD_ZONE"
  proof -
    have "axisState PIN_DOWN PIN_RIGHT tx (handleMouse ps now s)
            = axisState PIN_DOWN PIN_RIGHT tx (mouseVertical ps now (mouseHorizontal ps now s))"
      by (rule axis_handleMouse(1) [OF assms pins(2) pins(1)])
    also have "\<dots> = axisState PIN_DOWN PIN_RIGHT tx (mouseHorizontal ps now s)"
      by (rule vertical_frame)
    also have "\<dots> = quadratureStep (mousePeriod \<bar>deflection ps PSS_RX\<bar>) now
                       (axisState PIN_DOWN PIN_RIGHT tx s)"
      by (rule axis_mouseHorizontal(2) [OF d])
    finally show ?thesis .
  qed
  have down: "axisState PIN_LEFT PIN_UP ty (handleMouse ps now s)
          = quadratureStep (mousePeriod \<bar>deflection ps PSS_RY\<bar>) now
              (axisState PIN_LEFT PIN_UP ty s)"
    if d: "ANALOG_DEAD_ZONE < deflection ps PSS_RY"
  proof -
    have "axisState PIN_LEFT PIN_UP ty (handleMouse ps now s)
            = axisState PIN_LEFT PIN_UP ty (mouseVertical ps now (mouseHorizontal ps now s))"
      by (rule axis_handleMouse(2) [OF assms pins(3) pins(4)])
    also have "\<dots> = quadratureStep (mousePeriod \<bar>deflection ps PSS_RY\<bar>) now
                       (axisState PIN_LEFT PIN_UP ty (mouseHorizontal ps now s))"
      by (rule axis_mouseVertical(1) [OF d])
    also have "axisState PIN_LEFT PIN_UP ty (mouseHorizontal ps now s)
                 = axisState PIN_LEFT PIN_UP ty s"
      by (rule horizontal_frame)
    finally show ?thesis .
  qed
  have up: "axisState PIN_UP PIN_LEFT ty (handleMouse ps now s)
          = quadratureStep (mousePeriod \<bar>deflection ps PSS_RY\<bar>) now
              (axisState PIN_UP PIN_LEFT ty s)"
    if d: "deflection ps PSS_RY < - ANALOG_DEAD_ZONE"
  proof -
    have "axisState PIN_UP PIN_LEFT ty (handleMouse ps now s)
            = axisState PIN_UP PIN_LEFT ty (mouseVertical ps now (mouseHorizontal ps now s))"
      by (rule axis_handleMouse(2) [OF assms pins(4) pins(3)])
    also have "\<dots> = quadratureStep (mousePeriod \<bar>deflection ps PSS_RY\<bar>) now
                       (axisState PIN_UP PIN_LEFT ty (mouseHorizontal ps now s))"
      by (rule axis_mouseVertical(2) [OF d])
    also have "axisState PIN_UP PIN_LEFT ty (mouseHorizontal ps now s)
                 = axisState PIN_UP PIN_LEFT ty s"
      by (rule horizontal_frame)
    finally show ?thesis .
  qed
  from right left down up show ?thesis by blast
qed

text \<open>
  Right and up at full deflection (period 6), 1000 ms after both timers started: both
  leading pins go high and restart their timers, both trailing pins stay low.
\<close>

theorem mouse_quadrature_witness:
  "ANALOG_DEAD_ZONE < deflection stickUpRight PSS_RX \<and>
   deflection stickUpRight PSS_RY < - ANALOG_DEAD_ZONE \<and>
   axisState PIN_RIGHT PIN_DOWN tx (handleMouse stickUpRight 1000 (toMouse init))
     = (True, False, 1000) \<and>
   axisState PIN_UP PIN_LEFT ty (handleMouse stickUpRight 1000 (toMouse init))
     = (True, False, 1000)"
proof -
  have b: "\<not> (Button stickUpRight PSB_PAD_UP \<or> Button stickUpRight PSB_PAD_DOWN
               \<or> Button stickUpRight PSB_PAD_LEFT \<or> Button stickUpRight PSB_PAD_RIGHT)"
    by (simp add: stickUpRight_def)
  have d: "deflection stickUpRight PSS_RX = 128" "deflection stickUpRight PSS_RY = - 127"
    by (simp_all add: deflection_def stickUpRight_def)
  have p: "mousePeriod 127 = 6"
    by (simp add: mousePeriod_def map_long_def signed_divide_int_def)
  have a: "axisState PIN_RIGHT PIN_DOWN tx (toMouse init) = (False, False, 0)"
    "axisState PIN_UP PIN_LEFT ty (toMouse init) = (False, False, 0)"
    by (simp_all add: axisState_def toMouse_def init_def pinMode_def digitalWrite_def
          power_on_def)
  have q: "quadratureStep 6 1000 (False, False, 0) = (True, False, 1000)"
    by (simp add: quadratureStep_def Let_def)
  from mouse_quadrature [OF b, of 1000 "toMouse init"] d a p q
  show ?thesis by (simp add: mousePeriod_128)
qed

text \<open>
  The trailing pin does not toggle half a period after the leading pin: the leading pin
  \<open>PIN_RIGHT\<close> goes high at 1000 ms, with period 6, and the pass at 1003 ms finds the
  trailing pin \<open>PIN_DOWN\<close> low and leaves it low, since low is already the complement of
  the leading pin.
\<close>

theorem trailing_pin_not_toggled:
  "tx (run [Loop stickRight 0, Loop stickRight 1000] init) = 1000 \<and>
   mousePeriod \<bar>deflection stickRight PSS_RX\<bar> = 6 \<and>
   axisState PIN_RIGHT PIN_DOWN tx (run [Loop stickRight 0, Loop stickRight 1000] init)
     = (True, False, 1000) \<and>
   axisState PIN_RIGHT PIN_DOWN tx
     (run [Loop stickRight 0, Loop stickRight 1000, Loop stickRight 1003] init)
     = (True, False, 1000)"
  by (simp add: program_defs axisState_def stickRight_def deflection_def mousePeriod_128)

subsection \<open>The wiring of the modes\<close>

text \<open>
  Every reachable state is wired for its mode. This is what the model of \<open>digitalRead\<close>
  and the unconditional use of \<open>onClockEdge\<close> in \<open>clockEdges\<close> rely on.
\<close>

lemma ddr_digitalWrite [simp]: "ddr (digitalWrite p v x q) = ddr (x q)"
  by (simp add: digitalWrite_def)

lemma ddr_pinMode_OUTPUT: "ddr (pinMode p OUTPUT x q) = (q = p \<or> ddr (x q))"
  by (simp add: pinMode_def)

lemma wired_toMouse: "wired (toMouse s)"
  by (simp add: wired_def toMouse_def ddr_pinMode_OUTPUT)

lemma wired_toJoystick: "wired (toJoystick s)"
  by (simp add: wired_def toJoystick_def)

lemma wired_toCD32: "wired (toCD32 s)"
  by (simp add: wired_def toCD32_def pinMode_def)

lemma wired_lastSwitchedTime: "wired (s\<lparr>lastSwitchedTime := t\<rparr>) = wired s"
  by (simp add: wired_def)

lemma wired_onPadModeChange: "wired s \<Longrightarrow> wired (onPadModeChange level now s)"
  by (auto simp add: wired_def onPadModeChange_def toCD32_def Let_def pinMode_def
        digitalWrite_def)

lemma wired_onClockEdge: "wired s \<Longrightarrow> wired (onClockEdge s)"
  by (simp add: wired_def onClockEdge_def Let_def)

lemma wired_handleJoystick:
  "mode s = MODE_JOYSTICK \<Longrightarrow> wired (handleJoystick ps s)"
  by (simp add: handleJoystick_def Let_def flashLed_eq wired_toMouse)
     (simp add: wired_def)

lemma ddr_mouse_blocks:
  "ddr (io (mouseHorizontal ps now s) q) = ddr (io s q)"
  "ddr (io (mouseVertical ps now s) q) = ddr (io s q)"
  "mode (mouseHorizontal ps now s) = mode s"
  "mode (mouseVertical ps now s) = mode s"
  by (simp_all add: mouseHorizontal_def mouseVertical_def Let_def)

lemma wired_handleMouse:
  "mode s = MODE_MOUSE \<Longrightarrow> wired s \<Longrightarrow> wired (handleMouse ps now s)"
  by (simp add: handleMouse_def Let_def wired_toJoystick)
     (simp add: wired_def ddr_mouse_blocks ddr_drive)

lemma wired_handleCD32Pad:
  "mode s = MODE_CD32 \<Longrightarrow> wired s \<Longrightarrow> wired (handleCD32Pad ps s)"
  by (simp add: wired_def io_handleCD32Pad ddr_drive)

lemma wired_led: "wired (s\<lparr>io := digitalWrite p v (io s)\<rparr>) = wired s"
  by (simp add: wired_def)

lemma wired_pollMode: "wired s \<Longrightarrow> wired (pollMode ps now s)"
  by (cases "mode s")
     (simp_all add: pollMode_def Let_def wired_led wired_handleJoystick wired_handleMouse
        wired_handleCD32Pad)

lemma wired_loop: "wired s \<Longrightarrow> wired (loop ps now s)"
  by (simp add: loop_def Let_def wired_pollMode wired_lastSwitchedTime wired_toMouse
        wired_toJoystick del: TIMEOUT_CD32_MODE_def)

lemma wired_step: "wired s \<Longrightarrow> wired (step e s)"
  by (cases e) (simp_all add: wired_onPadModeChange wired_onClockEdge wired_loop)

lemma reachable_wired: "reachable s \<Longrightarrow> wired s"
proof (induction rule: reachable.induct)
  case reachable_init
  show ?case by (simp add: wired_def init_def)
next
  case (reachable_step s e)
  then show ?case by (simp add: wired_step)
qed

text \<open>The directions of CD32 mode are those of the mapping Normal.\<close>

lemma mapJoystickNormal_directions:
  "up (mapJoystickNormal ps j)
     = (deflection ps PSS_LY < - ANALOG_DEAD_ZONE \<or> Button ps PSB_PAD_UP)"
  "down (mapJoystickNormal ps j)
     = (ANALOG_DEAD_ZONE < deflection ps PSS_LY \<or> Button ps PSB_PAD_DOWN)"
  "left (mapJoystickNormal ps j)
     = (deflection ps PSS_LX < - ANALOG_DEAD_ZONE \<or> Button ps PSB_PAD_LEFT)"
  "right (mapJoystickNormal ps j)
     = (ANALOG_DEAD_ZONE < deflection ps PSS_LX \<or> Button ps PSB_PAD_RIGHT)"
  by (simp_all add: mapJoystickNormal_def mapAnalogStickHorizontal_def
        mapAnalogStickVertical_def deflection_def Let_def)

end
